theory Spec2Isabelle
  imports Complex_Main "HOL-Library.AList"
begin

section \<open>Text, cells and exceptions\<close>

text \<open>
  A Python \<open>str\<close> is a sequence of Unicode code points, so a text is a list of code
  points. The Hebrew literals of the source are written as their code points; ASCII
  literals go through \<open>ascii\<close>.
\<close>

type_synonym pystr = "nat list"

definition ascii :: "string \<Rightarrow> pystr" where
  "ascii s = map of_char s"

text \<open>
  The characters \<open>str.strip()\<close> removes when called without argument: those for which
  \<open>str.isspace\<close> holds.
\<close>

definition is_space :: "nat \<Rightarrow> bool" where
  "is_space c \<longleftrightarrow>
     (9 \<le> c \<and> c \<le> 13) \<or> (28 \<le> c \<and> c \<le> 32) \<or> c = 133 \<or> c = 160 \<or> c = 5760 \<or>
     (8192 \<le> c \<and> c \<le> 8202) \<or> c = 8232 \<or> c = 8233 \<or> c = 8239 \<or> c = 8287 \<or> c = 12288"

definition strip :: "pystr \<Rightarrow> pystr" where
  "strip s = rev (dropWhile is_space (rev (dropWhile is_space s)))"

text \<open>
  \<open>s.split(sep)\<close> for a one-character separator: every occurrence of the separator
  ends a part, so a text with \<open>n\<close> separators has \<open>n + 1\<close> parts (some possibly empty).
\<close>

fun split_on :: "nat \<Rightarrow> pystr \<Rightarrow> pystr list" where
  "split_on sep [] = [[]]"
| "split_on sep (c # cs) =
     (if c = sep then [] # split_on sep cs
      else (case split_on sep cs of
              [] \<Rightarrow> [[c]]
            | p # ps \<Rightarrow> (c # p) # ps))"

definition comma :: nat where
  "comma = 44"

text \<open>
  A cell of a pandas table: missing (\<open>None\<close>, \<open>NaN\<close>), a text, or a number. \<open>pd.isna\<close>
  holds of the missing cell only.
\<close>

datatype cell = NA | Text pystr | Num rat

fun isna :: "cell \<Rightarrow> bool" where
  "isna NA = True"
| "isna _ = False"

datatype key = StrKey pystr | IntKey nat

text \<open>
  The exceptions of the synchronous code and of the libraries; all of them derive from
  Python's \<open>Exception\<close>.
\<close>

datatype exn =
    KeyError key
  | AttributeError
  | FileNotFoundError
  | IsADirectoryError
  | EmptyDataError
  | PermissionError
  | OSError
  | ValueError
  | RenderError pystr

text \<open>
  What an \<open>await\<close> can raise: an exception deriving from \<open>Exception\<close>, or
  \<open>asyncio.CancelledError\<close>, which derives from \<open>BaseException\<close> only and so passes
  through \<open>except Exception\<close>.
\<close>

datatype raised = Exception exn | CancelledError

section \<open>Field dictionary and categorical tables\<close>

text \<open>
  The dictionaries of the source, as association lists in the order they are written. No
  table has a duplicate key, so \<open>map_of\<close> is the dictionary's lookup.
\<close>

definition field_mapping :: "(pystr \<times> pystr) list" where
  "field_mapping =
     [([1513, 1501, 32, 1502, 1500, 1488], ascii ''full_name''),
      ([1502, 1505, 1508, 1512, 32, 1488, 1505, 1497, 1512, 44, 32, 1502, 1505, 1508, 1512, 32, 1514, 34, 1494, 32, 40, 1505, 1493, 1490, 32, 1514, 34, 1494, 41], ascii ''prisoner_id''),
      ([1502, 1490, 1491, 1512, 44, 32, 1490, 1497, 1500, 44, 32, 1488, 1494, 1493, 1512, 32, 1502, 1490, 1493, 1512, 1497, 1501], ascii ''demographics''),
      ([1514, 1488, 1512, 1497, 1498, 32, 1500, 1497, 1491, 1492], ascii ''birth_date''),
      ([1513, 1497, 1493, 1498, 32, 1488, 1512, 1490, 1493, 1504, 1497], ascii ''organization''),
      ([1488, 1494, 1512, 1495, 1493, 1514, 32, 1497, 1513, 1512, 1488, 1500, 1497, 1514], ascii ''israeli_citizenship''),
      ([1506, 1510, 1493, 1512, 32, 1488, 1493, 32, 1513, 1508, 1493, 1496], ascii ''status''),
      ([1502, 1513, 1498, 32, 1514, 1511, 1493, 1508, 1514, 32, 1502, 1488, 1505, 1512, 32, 1500, 1513, 1508, 1493, 1496, 1497, 1501, 32, 40, 1489, 1514, 1510, 1493, 1490, 1492, 32, 1513, 1500, 32, 1497, 1502, 1497, 1501, 45, 1495, 1493, 1491, 1513, 1497, 1501, 45, 1513, 1504, 1497, 1501, 41], ascii ''sentence_duration''),
      ([1514, 1488, 1512, 1497, 1498, 32, 1502, 1506, 1510, 1512], ascii ''arrest_date''),
      ([1506, 1489, 1497, 1512, 1493, 1514], ascii ''offenses''),
      ([1506, 1512, 1499, 1488, 1514, 32, 1492, 1513, 1497, 1508, 1493, 1496], ascii ''court''),
      ([1502, 1505, 1508, 1512, 32, 1514, 1497, 1511, 32, 1508, 1500, 34, 1488, 32, 1488, 1493, 32, 1508, 46, 1488], ascii ''case_number''),
      ([1502, 1505, 1508, 1512, 32, 1514, 1497, 1511, 32, 1489, 1497, 1514, 32, 1502, 1513, 1508, 1496], ascii ''court_file_number''),
      ([1492, 1488, 1501, 32, 1502, 1497, 1493, 1506, 1491, 32, 1488, 1493, 32, 1502, 1497, 1493, 1506, 1491, 1514, 32, 1500, 1490, 1497, 1512, 1493, 1513, 63], ascii ''deportation_status'')]"

definition organization_mapping :: "(pystr \<times> pystr) list" where
  "organization_mapping =
     [([1495, 1502, 1488, 1505], ascii ''HAMAS''),
      ([1508, 1514, 34, 1495], ascii ''FATAH''),
      ([1490, 39, 1497, 1492, 1488, 1491, 32, 1488, 1505, 1500, 1488, 1502, 1497], ascii ''ISLAMIC JIHAD''),
      ([1500, 1500, 1488], ascii ''NONE''),
      ([1495, 1494, 34, 1491], ascii ''DFLP''),
      ([1495, 1494, 34, 1506], ascii ''PFLP''),
      ([1491, 1488, 1506, 34, 1513], ascii ''ISIS'')]"

definition citizenship_mapping :: "(pystr \<times> pystr) list" where
  "citizenship_mapping =
     [([1500, 1488], ascii ''NO''),
      ([1499, 1503], ascii ''YES'')]"

definition status_mapping :: "(pystr \<times> pystr) list" where
  "status_mapping =
     [([1513, 1508, 1493, 1496], ascii ''JUDGED''),
      ([1506, 1510, 1493, 1512, 32, 1502, 1504, 1492, 1500, 1497], ascii ''ADMINISTRATIVE DETENTION''),
      ([1506, 1510, 1493, 1512], ascii ''DETAINED'')]"

definition court_mapping :: "(pystr \<times> pystr) list" where
  "court_mapping =
     [([1489, 1497, 1514, 32, 1502, 1513, 1508, 1496, 32, 1510, 1489, 1488, 1497], ascii ''MILITARY''),
      ([1489, 1497, 1514, 32, 1502, 1513, 1508, 1496, 32, 1488, 1494, 1512, 1495, 1497], ascii ''CIVILIAN'')]"

definition deportation_mapping :: "(pystr \<times> pystr) list" where
  "deportation_mapping =
     [([1500, 1488], ascii ''NO DEPORTATION''),
      ([1499, 1503, 44, 32, 1490, 1497, 1512, 1493, 1513, 32, 1500, 1510, 1502, 1497, 1514, 1493, 1514], ascii ''PERMANENT DEPORTATION''),
      ([1499, 1503, 44, 32, 1490, 1497, 1512, 1493, 1513, 32, 1502, 1493, 1514, 1504, 1492], ascii ''CONDITIONNAL DEPORTATION'')]"

definition gender_mapping :: "(pystr \<times> pystr) list" where
  "gender_mapping =
     [([1494, 1499, 1512], ascii ''MALE''),
      ([1504, 1511, 1489, 1492], ascii ''FEMALE'')]"

definition residence_mapping :: "(pystr \<times> pystr) list" where
  "residence_mapping =
     [([1497, 1492, 1493, 1491, 1492], ascii ''JUDEA''),
      ([1512, 1510, 34, 1506], ascii ''GAZA STRIP''),
      ([1513, 1493, 1502, 1512, 1493, 1503], ascii ''SAMARIA''),
      ([1497, 45, 1501], ascii ''JERUSALEM''),
      ([1495, 1493, 34, 1500], ascii ''ABROAD''),
      ([1511, 1493, 32, 1497, 1512, 1493, 1511], ascii ''GREEN LINE'')]"

definition categorical_tables :: "(pystr \<times> pystr) list list" where
  "categorical_tables =
     [organization_mapping, citizenship_mapping, status_mapping, court_mapping,
      deportation_mapping, gender_mapping, residence_mapping]"

text \<open>
  \<open>safe_map\<close>: a missing value gives \<open>None\<close>; otherwise \<open>mapping.get(value, value)\<close>. The
  keys of the tables are texts, so a number is never found and is returned unchanged.
\<close>

fun safe_map :: "cell \<Rightarrow> (pystr \<times> pystr) list \<Rightarrow> cell" where
  "safe_map NA mapping = NA"
| "safe_map (Text s) mapping =
     (case map_of mapping s of
        None \<Rightarrow> Text s
      | Some code \<Rightarrow> Text code)"
| "safe_map (Num n) mapping = Num n"

section \<open>Tables of cells\<close>

text \<open>
  A pandas \<open>DataFrame\<close> is a list of named columns in column order; a \<open>Series\<close> is the
  list of a column's cells in row order. The tables the transformer receives are the
  ones \<open>pd.read_csv\<close> built: such a column holds texts (and missing cells) or holds no
  text at all, and a non-empty column without any text has a numeric dtype.
\<close>

type_synonym series = "cell list"

type_synonym dataframe = "(pystr \<times> series) list"

definition try_bind :: "'e + 'a \<Rightarrow> ('a \<Rightarrow> 'e + 'b) \<Rightarrow> 'e + 'b" where
  "try_bind r f = (case r of Inl e \<Rightarrow> Inl e | Inr x \<Rightarrow> f x)"

definition getitem :: "dataframe \<Rightarrow> pystr \<Rightarrow> exn + series" where
  "getitem df c =
     (case map_of df c of
        None \<Rightarrow> Inl (KeyError (StrKey c))
      | Some col \<Rightarrow> Inr col)"

text \<open>\<open>df[c] = col\<close>: an existing column is replaced in place, a new one is appended.\<close>

definition setitem :: "dataframe \<Rightarrow> pystr \<Rightarrow> series \<Rightarrow> dataframe" where
  "setitem df c col = AList.update c col df"

definition drop_column :: "dataframe \<Rightarrow> pystr \<Rightarrow> exn + dataframe" where
  "drop_column df c =
     (case map_of df c of
        None \<Rightarrow> Inl (KeyError (StrKey c))
      | Some col \<Rightarrow> Inr (AList.delete c df))"

fun is_text :: "cell \<Rightarrow> bool" where
  "is_text (Text s) = True"
| "is_text _ = False"

text \<open>
  The \<open>.str\<close> accessor raises \<open>AttributeError\<close> on a column of numeric dtype, which is
  what \<open>read_csv\<close> gives a non-empty column without a text.
\<close>

definition str_accessor :: "series \<Rightarrow> exn + series" where
  "str_accessor col = (if col = [] \<or> list_ex is_text col then Inr col else Inl AttributeError)"

definition str_strip :: "series \<Rightarrow> exn + series" where
  "str_strip col =
     try_bind (str_accessor col)
       (\<lambda>col. Inr (map (\<lambda>c. case c of Text s \<Rightarrow> Text (strip s) | _ \<Rightarrow> NA) col))"

text \<open>
  \<open>.str.split(',', expand=True)\<close>: every text is split at every comma (no limit is
  given); the result has as many columns, numbered from 0, as the longest row has parts.
  A shorter row is padded with missing cells and a row without text is missing in every
  column.
\<close>

definition split_row :: "cell \<Rightarrow> pystr list option" where
  "split_row c = (case c of Text s \<Rightarrow> Some (split_on comma s) | _ \<Rightarrow> None)"

definition row_width :: "pystr list option \<Rightarrow> nat" where
  "row_width r = (case r of None \<Rightarrow> 1 | Some ps \<Rightarrow> length ps)"

definition expand_cell :: "nat \<Rightarrow> pystr list option \<Rightarrow> cell" where
  "expand_cell j r =
     (case r of
        None \<Rightarrow> NA
      | Some ps \<Rightarrow> if j < length ps then Text (ps ! j) else NA)"

definition str_split_expand :: "series \<Rightarrow> exn + series list" where
  "str_split_expand col =
     try_bind (str_accessor col)
       (\<lambda>col. let rows = map split_row col;
                  width = foldr max (map row_width rows) 0
              in Inr (map (\<lambda>j. map (expand_cell j) rows) [0..<width]))"

text \<open>\<open>split_data[j]\<close>: the column labelled \<open>j\<close>, or \<open>KeyError\<close>.\<close>

definition column_at :: "series list \<Rightarrow> nat \<Rightarrow> exn + series" where
  "column_at cols j = (if j < length cols then Inr (cols ! j) else Inl (KeyError (IntKey j)))"

text \<open>
  The validation statistics, as far as they are modelled: the record count and the
  number of missing values per column. The value distributions and the age summary
  (floating-point statistics) are left out.
\<close>

record validation =
  total_records :: nat
  null_values :: "(pystr \<times> nat) list"

text \<open>
  What a file written by the program holds: the cells of a table (a CSV file) or the
  statistics report.
\<close>

datatype content = Table dataframe | Stats validation


text \<open>
  What the program takes from pandas without the source fixing it: the number
  \<open>pd.to_numeric(errors='coerce')\<close> gives a text that is not a plain decimal literal (a
  float, or missing when the text is no number); the calendar date of the timestamp
  \<open>pd.to_datetime\<close> parses from a cell, which may consult the wall clock; and what
  \<open>pd.read_csv\<close> returns on a file with a given content (a table with inferred column
  types, or an exception such as \<open>EmptyDataError\<close>).
\<close>

record date =
  year :: nat
  month :: nat
  day :: nat

type_synonym clock = date

record pandas =
  numeric_other :: "pystr \<Rightarrow> cell"
  to_datetime :: "clock \<Rightarrow> cell \<Rightarrow> exn + date"
  read_back :: "content \<Rightarrow> exn + dataframe"

definition is_digit :: "nat \<Rightarrow> bool" where
  "is_digit c \<longleftrightarrow> 48 \<le> c \<and> c \<le> 57"

definition digits_value :: "pystr \<Rightarrow> nat" where
  "digits_value s = foldl (\<lambda>n c. 10 * n + (c - 48)) 0 s"

text \<open>
  A non-empty run of ASCII digits below \<open>2 ^ 53\<close> is read as that integer, whether the
  column ends up with an integer or a floating-point dtype.
\<close>

definition decimal_literal :: "pystr \<Rightarrow> nat option" where
  "decimal_literal s =
     (if s \<noteq> [] \<and> list_all is_digit s \<and> digits_value s < 2 ^ 53
      then Some (digits_value s) else None)"

definition to_numeric_coerce :: "pandas \<Rightarrow> series \<Rightarrow> series" where
  "to_numeric_coerce lib col =
     map (\<lambda>c. case c of
                 NA \<Rightarrow> NA
               | Num n \<Rightarrow> Num n
               | Text s \<Rightarrow>
                   (case decimal_literal s of
                      Some n \<Rightarrow> Num (of_nat n)
                    | None \<Rightarrow> numeric_other lib s)) col"

section \<open>The transformer\<close>

definition demographics :: pystr where "demographics = ascii ''demographics''"
definition gender :: pystr where "gender = ascii ''gender''"
definition age :: pystr where "age = ascii ''age''"
definition residence :: pystr where "residence = ascii ''residence''"
definition full_name :: pystr where "full_name = ascii ''full_name''"
definition birth_date :: pystr where "birth_date = ascii ''birth_date''"
definition arrest_date :: pystr where "arrest_date = ascii ''arrest_date''"
definition organization :: pystr where "organization = ascii ''organization''"
definition israeli_citizenship :: pystr where "israeli_citizenship = ascii ''israeli_citizenship''"
definition status :: pystr where "status = ascii ''status''"
definition court :: pystr where "court = ascii ''court''"
definition deportation_status :: pystr where "deportation_status = ascii ''deportation_status''"

text \<open>
  Lines 189 to 194 of \<open>split_demographics\<close>: the split of the composite column and the
  three stripped columns taken from it, before any mapping.
\<close>

definition demographics_columns :: "series \<Rightarrow> exn + series \<times> series \<times> series" where
  "demographics_columns col =
     try_bind (str_split_expand col) (\<lambda>split_data.
     try_bind (try_bind (column_at split_data 0) str_strip) (\<lambda>g.
     try_bind (try_bind (column_at split_data 1) str_strip) (\<lambda>a.
     try_bind (try_bind (column_at split_data 2) str_strip) (\<lambda>r.
     Inr (g, a, r)))))"

definition apply_column :: "dataframe \<Rightarrow> pystr \<Rightarrow> (cell \<Rightarrow> cell) \<Rightarrow> exn + dataframe" where
  "apply_column df c f = try_bind (getitem df c) (\<lambda>col. Inr (setitem df c (map f col)))"

definition split_demographics :: "pandas \<Rightarrow> dataframe \<Rightarrow> exn + dataframe" where
  "split_demographics lib df =
     try_bind (getitem df demographics) (\<lambda>col.
     try_bind (demographics_columns col) (\<lambda>(g, a, r).
     let df_processed = setitem (setitem (setitem df gender g) age a) residence r in
     try_bind (apply_column df_processed gender (\<lambda>x. safe_map x gender_mapping)) (\<lambda>df_processed.
     try_bind (apply_column df_processed residence (\<lambda>x. safe_map x residence_mapping)) (\<lambda>df_processed.
     try_bind (drop_column df_processed demographics) (\<lambda>df_processed.
     try_bind (getitem df_processed age) (\<lambda>a.
     Inr (setitem df_processed age (to_numeric_coerce lib a))))))))"

fun digit_str :: "nat \<Rightarrow> pystr" where
  "digit_str n = (if n < 10 then [48 + n] else digit_str (n div 10) @ [48 + n mod 10])"

declare digit_str.simps [simp del]

definition zero_pad :: "nat \<Rightarrow> nat \<Rightarrow> pystr" where
  "zero_pad w n = replicate (w - length (digit_str n)) 48 @ digit_str n"

text \<open>
  \<open>strftime('%Y-%m-%d')\<close> of a timestamp with the given calendar date: the year is
  written without padding, month and day with two digits.
\<close>

definition strftime_ymd :: "date \<Rightarrow> pystr" where
  "strftime_ymd d = digit_str (year d) @ [45] @ zero_pad 2 (month d) @ [45] @ zero_pad 2 (day d)"

text \<open>
  \<open>format_date\<close>: the body of the \<open>try\<close>, and the handler that turns every exception
  into \<open>None\<close>.
\<close>

definition format_date_body :: "pandas \<Rightarrow> clock \<Rightarrow> cell \<Rightarrow> exn + cell" where
  "format_date_body lib now date_str =
     (if isna date_str then Inr NA
      else try_bind (to_datetime lib now date_str) (\<lambda>date_obj. Inr (Text (strftime_ymd date_obj))))"

definition format_date :: "pandas \<Rightarrow> clock \<Rightarrow> cell \<Rightarrow> cell" where
  "format_date lib now date_str =
     (case format_date_body lib now date_str of
        Inl e \<Rightarrow> NA
      | Inr s \<Rightarrow> s)"

text \<open>\<open>PrisonerDataTransformer.transform_data\<close>.\<close>

definition transform_data :: "pandas \<Rightarrow> clock \<Rightarrow> dataframe \<Rightarrow> exn + dataframe" where
  "transform_data lib now df =
     try_bind (split_demographics lib df) (\<lambda>df_transformed.
     try_bind (apply_column df_transformed birth_date (format_date lib now)) (\<lambda>df_transformed.
     try_bind (apply_column df_transformed arrest_date (format_date lib now)) (\<lambda>df_transformed.
     try_bind (apply_column df_transformed organization (\<lambda>x. safe_map x organization_mapping)) (\<lambda>df_transformed.
     try_bind (apply_column df_transformed israeli_citizenship (\<lambda>x. safe_map x citizenship_mapping)) (\<lambda>df_transformed.
     try_bind (apply_column df_transformed status (\<lambda>x. safe_map x status_mapping)) (\<lambda>df_transformed.
     try_bind (apply_column df_transformed court (\<lambda>x. safe_map x court_mapping)) (\<lambda>df_transformed.
     apply_column df_transformed deportation_status (\<lambda>x. safe_map x deportation_mapping))))))))"

section \<open>The world of a run\<close>

text \<open>
  What the Render Client shows for one navigation. Each capability either raises or
  answers: \<open>page.goto\<close>, \<open>page.wait_for_selector\<close>, \<open>page.query_selector_all\<close> for the
  record blocks, \<open>row.query_selector_all\<close> for the field elements of a block,
  \<open>field.query_selector\<close> for the label and for the value element (which may be absent),
  and \<open>inner_text\<close> of an element.
\<close>

datatype element = Element (inner_text: "raised + pystr")

record field_elem =
  query_label :: "raised + element option"
  query_value :: "raised + element option"

datatype row_elem = Row (query_fields: "raised + field_elem list")

record page_view =
  goto :: "raised option"
  wait_for_selector :: "raised option"
  query_rows :: "raised + row_elem list"

text \<open>A raw record is a Python dictionary: its keys in insertion order, with their values.\<close>

type_synonym raw_record = "(pystr \<times> pystr) list"

text \<open>An entry of the directory \<open>output\<close>: a regular file with its content, or a directory.\<close>

datatype entry = Regular content | Directory

text \<open>The calls of \<open>logging.info\<close> and \<open>logging.error\<close>, one constructor for each message.\<close>

datatype log_entry =
    Info_page_loaded pystr
  | Info_found_rows nat
  | Info_extracted "pystr option"
  | Error_page int exn
  | Info_scraping_page int
  | Info_found_prisoners nat int
  | Info_skipping
  | Info_saved pystr
  | Info_transformed pystr
  | Info_stats_saved pystr
  | Error_input_not_found pystr
  | Error_occurred exn

text \<open>
  The state a run works on: the remote site (what it shows for a navigation, given all
  the URLs navigated to so far, the current one last), the navigations made, whether
  launching the browser fails, the browser sessions opened and closed, the directory
  \<open>output\<close> (absent, or its entries by name), whether the file system accepts writes,
  and the log.
\<close>

record world =
  site :: "pystr list \<Rightarrow> page_view"
  requests :: "pystr list"
  launch :: "exn option"
  opened :: nat
  closed :: nat
  output_dir :: "(pystr \<rightharpoonup> entry) option"
  writable :: bool
  logs :: "log_entry list"

section \<open>Page harvester\<close>

definition str_int :: "int \<Rightarrow> pystr" where
  "str_int i = (if i < 0 then 45 # digit_str (nat (- i)) else digit_str (nat i))"

definition page_url :: "pystr \<Rightarrow> int \<Rightarrow> pystr" where
  "page_url base_url skip = base_url @ ascii ''?skip='' @ str_int skip"

text \<open>
  The inner loop of \<open>get_page_data\<close> over the field elements of one block. A field is
  stored when both elements exist and the stripped label is a key of \<open>field_mapping\<close>
  with a non-empty identifier.
\<close>

fun extract_fields :: "field_elem list \<Rightarrow> raw_record \<Rightarrow> raised + raw_record" where
  "extract_fields [] data = Inr data"
| "extract_fields (field # field_elems) data =
     try_bind (query_label field) (\<lambda>label_elem.
     try_bind (query_value field) (\<lambda>value_elem.
       case (label_elem, value_elem) of
         (Some l, Some v) \<Rightarrow>
           try_bind (inner_text l) (\<lambda>label.
           try_bind (inner_text v) (\<lambda>value.
             case map_of field_mapping (strip label) of
               None \<Rightarrow> extract_fields field_elems data
             | Some english_key \<Rightarrow>
                 if english_key \<noteq> []
                 then extract_fields field_elems (AList.update english_key (strip value) data)
                 else extract_fields field_elems data))
       | _ \<Rightarrow> extract_fields field_elems data))"

text \<open>The record of one block: the body of the outer loop up to \<open>append\<close>.\<close>

definition extract_row :: "row_elem \<Rightarrow> raised + raw_record" where
  "extract_row row = try_bind (query_fields row) (\<lambda>field_elems. extract_fields field_elems [])"

text \<open>
  The outer loop over the blocks: the records built so far and the log entries written
  so far, until a block raises.
\<close>

fun extract_rows :: "row_elem list \<Rightarrow> raw_record list \<Rightarrow> log_entry list \<Rightarrow>
    log_entry list \<times> (raised + raw_record list)" where
  "extract_rows [] prisoners_data logged = (logged, Inr prisoners_data)"
| "extract_rows (row # rows) prisoners_data logged =
     (case extract_row row of
        Inl e \<Rightarrow> (logged, Inl e)
      | Inr data \<Rightarrow>
          extract_rows rows (prisoners_data @ [data])
            (logged @ [Info_extracted (map_of data full_name)]))"

text \<open>The body of the \<open>try\<close> of \<open>get_page_data\<close>: the log entries written and the outcome.\<close>

definition harvest :: "pystr \<Rightarrow> page_view \<Rightarrow> log_entry list \<times> (raised + raw_record list)" where
  "harvest url view =
     (case goto view of
        Some e \<Rightarrow> ([], Inl e)
      | None \<Rightarrow>
          (case wait_for_selector view of
             Some e \<Rightarrow> ([Info_page_loaded url], Inl e)
           | None \<Rightarrow>
               (case query_rows view of
                  Inl e \<Rightarrow> ([Info_page_loaded url], Inl e)
                | Inr rows \<Rightarrow>
                    extract_rows rows [] [Info_page_loaded url, Info_found_rows (length rows)])))"

text \<open>
  \<open>get_page_data\<close>: the navigation is recorded and the body runs on what the site
  shows. The handler of \<open>except Exception\<close> logs the error and returns the empty list;
  what does not derive from \<open>Exception\<close> leaves the function.
\<close>

definition get_page_data ::
  "pystr \<Rightarrow> int \<Rightarrow> world \<Rightarrow> (raised + raw_record list) \<times> world" where
  "get_page_data base_url skip w =
     (let url = page_url base_url skip;
          w = w\<lparr>requests := requests w @ [url]\<rparr>;
          (logged, outcome) = harvest url (site w (requests w))
      in case outcome of
           Inr prisoners_data \<Rightarrow> (Inr prisoners_data, w\<lparr>logs := logs w @ logged\<rparr>)
         | Inl (Exception e) \<Rightarrow> (Inr [], w\<lparr>logs := logs w @ logged @ [Error_page skip e]\<rparr>)
         | Inl CancelledError \<Rightarrow> (Inl CancelledError, w\<lparr>logs := logs w @ logged\<rparr>))"

section \<open>Pagination controller\<close>

text \<open>\<open>max_pages and page_num >= max_pages\<close>: \<open>None\<close> and 0 are false.\<close>

definition ceiling_reached :: "int option \<Rightarrow> int \<Rightarrow> bool" where
  "ceiling_reached max_pages page_num =
     (case max_pages of None \<Rightarrow> False | Some m \<Rightarrow> m \<noteq> 0 \<and> page_num \<ge> m)"

text \<open>
  The \<open>while True\<close> loop of \<open>scrape_all_pages\<close>, with \<open>self.get_page_data\<close> as the
  parameter \<open>fetch\<close>. The loop need not end, so its result is optional: \<open>None\<close> is a run
  that never leaves the loop. An exception of the fetch leaves the loop. The pause
  \<open>asyncio.sleep(2)\<close> only lets time pass and has no counterpart here.
\<close>

partial_function (option) scrape_loop ::
  "(int \<Rightarrow> world \<Rightarrow> (raised + raw_record list) \<times> world) \<Rightarrow> int option \<Rightarrow> world \<Rightarrow>
   raw_record list \<Rightarrow> int \<Rightarrow> int \<Rightarrow> ((raised + raw_record list) \<times> world) option" where
  "scrape_loop fetch max_pages w all_prisoners skip page_num =
     (let w = w\<lparr>logs := logs w @ [Info_scraping_page page_num]\<rparr>;
          (outcome, w) = fetch skip w
      in case outcome of
           Inl r \<Rightarrow> Some (Inl r, w)
         | Inr prisoners \<Rightarrow>
             if prisoners = [] then Some (Inr all_prisoners, w)
             else
               let all_prisoners = all_prisoners @ prisoners;
                   w = w\<lparr>logs := logs w @ [Info_found_prisoners (length prisoners) page_num]\<rparr>
               in if ceiling_reached max_pages page_num then Some (Inr all_prisoners, w)
                  else scrape_loop fetch max_pages w all_prisoners (skip + 20) (page_num + 1))"

text \<open>
  \<open>scrape_all_pages\<close>: \<open>init_browser\<close> runs before the \<open>try\<close>, so its failure
  propagates; the \<open>finally\<close> closes the session when the loop is left, by a \<open>break\<close>
  or by an exception (closing is taken to succeed). The outcome is the exception raised
  or the records.
\<close>

definition scrape_all_pages_with ::
  "(int \<Rightarrow> world \<Rightarrow> (raised + raw_record list) \<times> world) \<Rightarrow> int option \<Rightarrow> world \<Rightarrow>
   ((raised + raw_record list) \<times> world) option" where
  "scrape_all_pages_with fetch max_pages w =
     (case launch w of
        Some e \<Rightarrow> Some (Inl (Exception e), w)
      | None \<Rightarrow>
          (case scrape_loop fetch max_pages (w\<lparr>opened := opened w + 1\<rparr>) [] 0 1 of
             None \<Rightarrow> None
           | Some (outcome, w) \<Rightarrow> Some (outcome, w\<lparr>closed := closed w + 1\<rparr>)))"

definition scrape_all_pages ::
  "pystr \<Rightarrow> int option \<Rightarrow> world \<Rightarrow> ((raised + raw_record list) \<times> world) option" where
  "scrape_all_pages base_url max_pages w =
     scrape_all_pages_with (get_page_data base_url) max_pages w"

section \<open>Files and stages\<close>

definition raw_csv :: pystr where
  "raw_csv = ascii ''prisoners_data.csv''"

definition transformed_csv :: pystr where
  "transformed_csv = ascii ''prisoners_data_transformed.csv''"

definition stats_md :: pystr where
  "stats_md = ascii ''validation_stats.md''"

definition output_path :: "pystr \<Rightarrow> pystr" where
  "output_path name = ascii ''output/'' @ name"

definition lookup_output :: "world \<Rightarrow> pystr \<Rightarrow> entry option" where
  "lookup_output w name = (case output_dir w of None \<Rightarrow> None | Some d \<Rightarrow> d name)"

text \<open>\<open>path.exists\<close> of an entry of \<open>output\<close>: true of a file and of a directory.\<close>

definition path_exists :: "world \<Rightarrow> pystr \<Rightarrow> bool" where
  "path_exists w name \<longleftrightarrow> lookup_output w name \<noteq> None"

definition makedirs_output :: "world \<Rightarrow> exn + world" where
  "makedirs_output w =
     (if writable w then Inr (w\<lparr>output_dir := Some Map.empty\<rparr>) else Inl PermissionError)"

text \<open>
  Writing a file of \<open>output\<close>, by \<open>to_csv\<close> or by \<open>open(..., 'w')\<close>; \<open>missing\<close> is the
  exception of the writer when the directory does not exist.
\<close>

definition write_output :: "exn \<Rightarrow> world \<Rightarrow> pystr \<Rightarrow> content \<Rightarrow> exn + world" where
  "write_output missing w name c =
     (case output_dir w of
        None \<Rightarrow> Inl missing
      | Some d \<Rightarrow>
          if \<not> writable w then Inl PermissionError
          else if d name = Some Directory then Inl IsADirectoryError
          else Inr (w\<lparr>output_dir := Some (d(name \<mapsto> Regular c))\<rparr>))"

definition to_csv :: "world \<Rightarrow> pystr \<Rightarrow> dataframe \<Rightarrow> exn + world" where
  "to_csv w name df = write_output OSError w name (Table df)"

definition read_csv :: "pandas \<Rightarrow> world \<Rightarrow> pystr \<Rightarrow> exn + dataframe" where
  "read_csv lib w name =
     (case lookup_output w name of
        None \<Rightarrow> Inl FileNotFoundError
      | Some Directory \<Rightarrow> Inl IsADirectoryError
      | Some (Regular c) \<Rightarrow> read_back lib c)"

text \<open>
  \<open>pd.DataFrame(data)\<close> for a list of dictionaries: one column per key, in the order
  the keys are first seen, a missing cell where a record lacks the key.
\<close>

definition from_records :: "raw_record list \<Rightarrow> dataframe" where
  "from_records data =
     map (\<lambda>k. (k, map (\<lambda>r. case map_of r k of None \<Rightarrow> NA | Some v \<Rightarrow> Text v) data))
       (rev (remdups (rev (concat (map (map fst) data)))))"

definition save_to_csv :: "world \<Rightarrow> raw_record list \<Rightarrow> pystr \<Rightarrow> exn + world" where
  "save_to_csv w data name =
     try_bind (to_csv w name (from_records data))
       (\<lambda>w. Inr (w\<lparr>logs := logs w @ [Info_saved (output_path name)]\<rparr>))"

text \<open>
  \<open>scrap_data\<close>. The result is optional because the scraping loop need not end;
  otherwise it is the exception that left the function, if any, and the world.
\<close>

definition scrap_data :: "world \<Rightarrow> (raised option \<times> world) option" where
  "scrap_data w =
     (case (if output_dir w = None then makedirs_output w else Inr w) of
        Inl e \<Rightarrow> Some (Some (Exception e), w)
      | Inr w \<Rightarrow>
          if path_exists w raw_csv
          then Some (None, w\<lparr>logs := logs w @ [Info_skipping]\<rparr>)
          else
            (let base_url = ascii ''https://www.gov.il/he/Departments/DynamicCollectors/is-db'';
                 MAX_PAGES = None
             in case scrape_all_pages base_url MAX_PAGES w of
                  None \<Rightarrow> None
                | Some (Inl r, w) \<Rightarrow> Some (Some r, w)
                | Some (Inr prisoners, w) \<Rightarrow>
                    (case save_to_csv w prisoners raw_csv of
                       Inl e \<Rightarrow> Some (Some (Exception e), w)
                     | Inr w \<Rightarrow> Some (None, w))))"

definition validate_data :: "dataframe \<Rightarrow> validation" where
  "validate_data df =
     \<lparr>total_records = (case df of [] \<Rightarrow> 0 | (c, col) # _ \<Rightarrow> length col),
      null_values = map (\<lambda>(c, col). (c, length (filter isna col))) df\<rparr>"

text \<open>
  The module-level function \<open>transform_data\<close> (the method of the same name is
  \<open>transform_data\<close> above). Its two handlers catch every exception of the body.
\<close>

definition transform_handler :: "exn \<Rightarrow> world \<Rightarrow> world" where
  "transform_handler e w =
     (if e = FileNotFoundError
      then w\<lparr>logs := logs w @ [Error_input_not_found (output_path raw_csv)]\<rparr>
      else w\<lparr>logs := logs w @ [Error_occurred e]\<rparr>)"

definition transform_data_module :: "pandas \<Rightarrow> clock \<Rightarrow> world \<Rightarrow> world" where
  "transform_data_module lib now w =
     (case try_bind (read_csv lib w raw_csv) (transform_data lib now) of
        Inl e \<Rightarrow> transform_handler e w
      | Inr df_transformed \<Rightarrow>
          (let validation_stats = validate_data df_transformed in
           case to_csv w transformed_csv df_transformed of
             Inl e \<Rightarrow> transform_handler e w
           | Inr w \<Rightarrow>
               (case write_output FileNotFoundError w stats_md (Stats validation_stats) of
                  Inl e \<Rightarrow> transform_handler e w
                | Inr w \<Rightarrow>
                    w\<lparr>logs := logs w @ [Info_transformed (output_path transformed_csv),
                                          Info_stats_saved (output_path stats_md)]\<rparr>)))"

text \<open>
  \<open>asyncio.run(main())\<close>: the exit status of the process is 1 when an exception leaves
  \<open>main\<close> and 0 when \<open>main\<close> returns.
\<close>

definition main :: "pandas \<Rightarrow> clock \<Rightarrow> world \<Rightarrow> (int \<times> world) option" where
  "main lib now w =
     (case scrap_data w of
        None \<Rightarrow> None
      | Some (Some r, w) \<Rightarrow> Some (1, w)
      | Some (None, w) \<Rightarrow> Some (0, transform_data_module lib now w))"

section \<open>Reference notions for the splitter\<close>

text \<open>
  \<open>sep.join(parts)\<close>, and the text that follows the second comma of a text: the
  residence a split at the first two commas only would give before trimming.
\<close>

fun join_with :: "nat \<Rightarrow> pystr list \<Rightarrow> pystr" where
  "join_with sep [] = []"
| "join_with sep [p] = p"
| "join_with sep (p # q # ps) = p @ sep # join_with sep (q # ps)"

definition after_comma :: "pystr \<Rightarrow> pystr" where
  "after_comma s = drop 1 (dropWhile (\<lambda>c. c \<noteq> comma) s)"

definition after_second_comma :: "pystr \<Rightarrow> pystr" where
  "after_second_comma s = after_comma (after_comma s)"

definition strip_cell :: "cell \<Rightarrow> cell" where
  "strip_cell c = (case c of Text s \<Rightarrow> Text (strip s) | _ \<Rightarrow> NA)"

text \<open>The cells of a named column, none when the table has no such column.\<close>

definition column_cells :: "dataframe \<Rightarrow> pystr \<Rightarrow> cell list" where
  "column_cells df c = (case map_of df c of None \<Rightarrow> [] | Some col \<Rightarrow> col)"

section \<open>Sample inputs\<close>

text \<open>
  The row of the end-to-end scenario, once as a table with its three fields only and
  once with the six further columns the transformer reads, all missing.
\<close>

definition scenario_fields :: dataframe where
  "scenario_fields =
     [(full_name, [Text [1488]]),
      (demographics, [Text [1494, 1499, 1512, 44, 32, 51, 48, 44, 32, 1497, 45, 1501]]),
      (organization, [Text [1495, 1502, 1488, 1505]])]"

definition scenario_table :: dataframe where
  "scenario_table =
     scenario_fields @
     [(birth_date, [NA]), (arrest_date, [NA]), (israeli_citizenship, [NA]), (status, [NA]),
      (court, [NA]), (deportation_status, [NA])]"

text \<open>
  A library behaviour for the examples. Like pandas, \<open>to_datetime\<close> reads the texts
  \<open>now\<close> and \<open>today\<close> against the wall clock; a text of the form \<open>YYYY-MM-DD\<close> is
  that date; here every other cell is rejected, no other text is a number, and a
  written table is read back as it is (an empty one raises \<open>EmptyDataError\<close>).
\<close>

definition iso_date :: "pystr \<Rightarrow> date option" where
  "iso_date s =
     (if length s = 10 \<and> s ! 4 = 45 \<and> s ! 7 = 45 \<and>
         list_all is_digit (take 4 s @ take 2 (drop 5 s) @ drop 8 s)
      then Some \<lparr>year = digits_value (take 4 s), month = digits_value (take 2 (drop 5 s)),
                 day = digits_value (drop 8 s)\<rparr>
      else None)"

definition sample_pandas :: pandas where
  "sample_pandas =
     \<lparr>numeric_other = (\<lambda>s. NA),
      to_datetime = (\<lambda>now c.
        if c = Text (ascii ''today'') \<or> c = Text (ascii ''now'') then Inr now
        else (case c of
                Text s \<Rightarrow> (case iso_date s of Some d \<Rightarrow> Inr d | None \<Rightarrow> Inl ValueError)
              | _ \<Rightarrow> Inl ValueError)),
      read_back = (\<lambda>c.
        case c of
          Table df \<Rightarrow> if df = [] then Inl EmptyDataError else Inr df
        | Stats v \<Rightarrow> Inl ValueError)\<rparr>"

definition dated_table :: "pystr \<Rightarrow> dataframe" where
  "dated_table d =
     [(full_name, [Text [1488]]),
      (demographics, [Text [1494, 1499, 1512, 44, 32, 51, 48, 44, 32, 1497, 45, 1501]]),
      (organization, [Text [1495, 1502, 1488, 1505]]),
      (birth_date, [Text d]), (arrest_date, [NA]), (israeli_citizenship, [NA]), (status, [NA]),
      (court, [NA]), (deportation_status, [NA])]"

section \<open>Sample worlds\<close>

text \<open>A world before any run: nothing navigated, no session, no \<open>output\<close> directory.\<close>

definition fresh_world :: "(pystr list \<Rightarrow> page_view) \<Rightarrow> world" where
  "fresh_world s =
     \<lparr>site = s, requests = [], launch = None, opened = 0, closed = 0, output_dir = None,
      writable = True, logs = []\<rparr>"

definition block :: "(pystr \<times> pystr) list \<Rightarrow> row_elem" where
  "block pairs =
     Row (Inr (map (\<lambda>(l, v). \<lparr>query_label = Inr (Some (Element (Inr l))),
                                query_value = Inr (Some (Element (Inr v)))\<rparr>) pairs))"

definition page_of :: "row_elem list \<Rightarrow> page_view" where
  "page_of rows = \<lparr>goto = None, wait_for_selector = None, query_rows = Inr rows\<rparr>"

definition timed_out :: page_view where
  "timed_out =
     \<lparr>goto = None,
      wait_for_selector = Some (Exception (RenderError (ascii ''Timeout 30000ms exceeded''))),
      query_rows = Inr []\<rparr>"

text \<open>A view whose navigation is cancelled while it is awaited.\<close>

definition cancelled_view :: page_view where
  "cancelled_view = \<lparr>goto = Some CancelledError, wait_for_selector = None, query_rows = Inr []\<rparr>"

text \<open>A site that shows the pages of a list one navigation after the other, then times out.\<close>

definition site_of_pages :: "page_view list \<Rightarrow> pystr list \<Rightarrow> page_view" where
  "site_of_pages pages history =
     (case drop (length history - 1) pages of [] \<Rightarrow> timed_out | p # _ \<Rightarrow> p)"

text \<open>
  A simulated \<open>get_page_data\<close>: the n-th call returns the n-th page of a script (the
  empty list once the script is used up) and records the offset it was called with.
\<close>

definition fetch_script ::
  "raw_record list list \<Rightarrow> int \<Rightarrow> world \<Rightarrow> (raised + raw_record list) \<times> world" where
  "fetch_script pages skip w =
     (Inr (case drop (length (requests w)) pages of [] \<Rightarrow> [] | p # _ \<Rightarrow> p),
      w\<lparr>requests := requests w @ [str_int skip]\<rparr>)"

section \<open>Failures of the Render Client\<close>









text \<open>
  Sample blocks: one whose value text cannot be read, and one whose only label is not
  in the field dictionary.
\<close>

definition unreadable_block :: row_elem where
  "unreadable_block =
     Row (Inr [\<lparr>query_label = Inr (Some (Element (Inr (ascii ''x'')))),
                query_value =
                  Inr (Some (Element (Inl (Exception (RenderError (ascii ''detached''))))))\<rparr>])"

definition unknown_block :: row_elem where
  "unknown_block = block [(ascii ''unknown label'', ascii ''v'')]"

text \<open>
  Worlds for the stages: one where the raw file was harvested before, one where the
  entry \<open>prisoners_data.csv\<close> of \<open>output\<close> is a directory, and one where the browser
  cannot be launched.
\<close>

definition harvested_world :: world where
  "harvested_world =
     (fresh_world (site_of_pages []))
       \<lparr>output_dir := Some [raw_csv \<mapsto> Regular (Table scenario_table)]\<rparr>"

definition directory_world :: world where
  "directory_world =
     (fresh_world (site_of_pages []))\<lparr>output_dir := Some [raw_csv \<mapsto> Directory]\<rparr>"

definition no_browser_world :: world where
  "no_browser_world =
     (fresh_world (site_of_pages []))
       \<lparr>launch := Some (RenderError (ascii ''Executable does not exist''))\<rparr>"

definition new_year :: clock where
  "new_year = \<lparr>year = 2024, month = 1, day = 1\<rparr>"

text \<open>A block with the single field \<open>full_name\<close>, under its label on the site.\<close>

definition named_block :: "pystr \<Rightarrow> row_elem" where
  "named_block n = block [([1513, 1501, 32, 1502, 1500, 1488], n)]"

section \<open>Categorical normalizer\<close>

lemma codes_are_not_keys:
  "list_all (\<lambda>T. list_all (\<lambda>(k, v). map_of T v = None) T) categorical_tables"
  unfolding categorical_tables_def organization_mapping_def citizenship_mapping_def
    status_mapping_def court_mapping_def deportation_mapping_def gender_mapping_def
    residence_mapping_def ascii_def
  by simp

lemma code_not_key:
  assumes "T \<in> set categorical_tables" and "map_of T s = Some c"
  shows "map_of T c = None"
proof -
  from assms(1) codes_are_not_keys have "list_all (\<lambda>(k, v). map_of T v = None) T"
    by (simp add: list_all_iff)
  moreover from assms(2) have "(s, c) \<in> set T"
    by (rule map_of_SomeD)
  ultimately show ?thesis
    by (auto simp: list_all_iff)
qed

lemma safe_map_twice:
  assumes "T \<in> set categorical_tables"
  shows "safe_map (safe_map v T) T = safe_map v T"
proof (cases v)
  case NA
  then show ?thesis by simp
next
  case (Text s)
  show ?thesis
  proof (cases "map_of T s")
    case None
    with Text show ?thesis by simp
  next
    case (Some c)
    with assms have "map_of T c = None" by (rule code_not_key)
    with Text Some show ?thesis by simp
  qed
next
  case (Num n)
  then show ?thesis by simp
qed

text \<open>
  C6. For each of the seven categorical tables \<open>T\<close>: \<open>safe_map\<close> gives the missing
  value for a missing input, \<open>T[s]\<close> for a text \<open>s\<close> that is a key of \<open>T\<close>, the input
  itself for any other text and for a number, and applying it twice is the same as
  applying it once.
\<close>

theorem safe_map_on_tables:
  "\<forall>T \<in> set categorical_tables.
     safe_map NA T = NA \<and>
     (\<forall>s c. map_of T s = Some c \<longrightarrow> safe_map (Text s) T = Text c) \<and>
     (\<forall>s. map_of T s = None \<longrightarrow> safe_map (Text s) T = Text s) \<and>
     (\<forall>n. safe_map (Num n) T = Num n) \<and>
     (\<forall>v. safe_map (safe_map v T) T = safe_map v T)"
  by (simp add: safe_map_twice)

theorem safe_map_on_tables_witness:
  "gender_mapping \<in> set categorical_tables \<and>
   map_of gender_mapping [1494, 1499, 1512] = Some (ascii ''MALE'') \<and>
   safe_map (Text [1494, 1499, 1512]) gender_mapping = Text (ascii ''MALE'') \<and>
   map_of gender_mapping (ascii ''MALE'') = None \<and>
   safe_map (Text (ascii ''MALE'')) gender_mapping = Text (ascii ''MALE'') \<and>
   safe_map (safe_map (Text [1494, 1499, 1512]) gender_mapping) gender_mapping =
     safe_map (Text [1494, 1499, 1512]) gender_mapping"
proof -
  have mem: "gender_mapping \<in> set categorical_tables"
    by (simp add: categorical_tables_def)
  have key: "map_of gender_mapping [1494, 1499, 1512] = Some (ascii ''MALE'')"
    by (simp add: gender_mapping_def)
  have miss: "map_of gender_mapping (ascii ''MALE'') = None"
    by (simp add: gender_mapping_def ascii_def)
  from safe_map_on_tables mem key miss show ?thesis
    by blast
qed

section \<open>Demographics splitter and transform pipeline\<close>

lemmas column_names = demographics_def gender_def age_def residence_def full_name_def
  birth_date_def arrest_date_def organization_def israeli_citizenship_def status_def court_def
  deportation_status_def

lemmas frame_ops = try_bind_def getitem_def setitem_def drop_column_def str_accessor_def
  str_strip_def split_row_def row_width_def expand_cell_def str_split_expand_def column_at_def
  apply_column_def

lemmas text_ops = ascii_def strip_def is_space_def comma_def is_digit_def digits_value_def
  decimal_literal_def

text \<open>
  C1. The claim is that \<open>split_demographics\<close> never raises and that the split succeeds
  even when no record of the batch has three components. On a batch whose only record
  is \<open>X, 30\<close> the split has two columns, and reading the column labelled 2 raises
  \<open>KeyError\<close>.
\<close>

theorem split_demographics_short_batch:
  "split_demographics lib [(demographics, [Text (ascii ''X, 30'')])] = Inl (KeyError (IntKey 2))"
  by (simp add: split_demographics_def demographics_columns_def frame_ops text_ops)

text \<open>
  C4, as stated: the residence would keep all the text after the second comma. On the
  record \<open>M, 30, North, East\<close> the residence is \<open>North\<close>, while the trimmed text after
  the second comma is \<open>North, East\<close>.
\<close>

theorem residence_is_third_part_only:
  "demographics_columns [Text (ascii ''M, 30, North, East'')] =
     Inr ([Text (ascii ''M'')], [Text (ascii ''30'')], [Text (ascii ''North'')]) \<and>
   strip (after_second_comma (ascii ''M, 30, North, East'')) = ascii ''North, East''"
  by (simp add: demographics_columns_def frame_ops text_ops upt_rec after_second_comma_def after_comma_def)

lemma split_on_not_Nil: "split_on sep s \<noteq> []"
  by (induction s) (auto split: list.splits)

lemma split_on_parts_free: "p \<in> set (split_on sep s) \<Longrightarrow> sep \<notin> set p"
  by (induction s arbitrary: p) (auto split: list.splits if_splits)

lemma join_split_on: "join_with sep (split_on sep s) = s"
proof (induction s)
  case Nil
  then show ?case by simp
next
  case (Cons c cs)
  obtain p ps where ps: "split_on sep cs = p # ps"
    using split_on_not_Nil [of sep cs] by (cases "split_on sep cs") auto
  show ?case
  proof (cases "c = sep")
    case True
    with Cons ps show ?thesis by simp
  next
    case False
    with Cons ps show ?thesis by (cases ps) auto
  qed
qed

lemma length_split_on: "length (split_on sep s) = Suc (count_list s sep)"
  by (induction s) (auto split: list.splits simp: split_on_not_Nil)

lemma strip_decomposition:
  "\<exists>l t. s = l @ strip s @ t \<and> list_all is_space l \<and> list_all is_space t"
proof -
  let ?l = "takeWhile is_space s"
  let ?m = "dropWhile is_space s"
  let ?t = "rev (takeWhile is_space (rev ?m))"
  have "?m = strip s @ ?t"
    unfolding strip_def by (metis rev_append rev_rev_ident takeWhile_dropWhile_id)
  then have "s = ?l @ strip s @ ?t" by (metis takeWhile_dropWhile_id)
  moreover have "list_all is_space ?l" by (simp add: list_all_iff) (meson set_takeWhileD)
  moreover have "list_all is_space ?t" by (simp add: list_all_iff) (meson set_takeWhileD)
  ultimately show ?thesis by blast
qed

lemma last_dropWhile_eq: "dropWhile P xs \<noteq> [] \<Longrightarrow> last (dropWhile P xs) = last xs"
  by (metis last_appendR takeWhile_dropWhile_id)

lemma strip_trimmed:
  assumes "strip s \<noteq> []"
  shows "\<not> is_space (hd (strip s)) \<and> \<not> is_space (last (strip s))"
proof -
  let ?m = "dropWhile is_space s"
  let ?d = "dropWhile is_space (rev ?m)"
  from assms have d: "?d \<noteq> []" by (simp add: strip_def)
  then have m: "?m \<noteq> []" by (cases ?m) auto
  have "last (strip s) = hd ?d" using d by (simp add: strip_def last_rev)
  moreover have "\<not> is_space (hd ?d)" using d by (rule hd_dropWhile)
  moreover have "hd (strip s) = last ?d" using d by (simp add: strip_def hd_rev)
  moreover have "last ?d = hd ?m" using d m by (simp add: last_dropWhile_eq last_rev)
  moreover have "\<not> is_space (hd ?m)" using m by (rule hd_dropWhile)
  ultimately show ?thesis by simp
qed

lemma demographics_columns_Inr:
  assumes "demographics_columns col = Inr (g, a, r)"
  shows "g = map (\<lambda>c. strip_cell (expand_cell 0 (split_row c))) col \<and>
         a = map (\<lambda>c. strip_cell (expand_cell 1 (split_row c))) col \<and>
         r = map (\<lambda>c. strip_cell (expand_cell 2 (split_row c))) col"
  using assms
  by (auto simp: demographics_columns_def str_split_expand_def str_strip_def try_bind_def
      column_at_def Let_def str_accessor_def strip_cell_def comp_def numeral_2_eq_2
      split: sum.splits if_splits)


text \<open>
  C4, amended. The composite text is split at every comma: the parts contain no comma,
  joined by commas they give the text back, and there is one more part than commas.
  Gender, age and residence of a record are its first three parts, each trimmed of
  surrounding whitespace (missing where the record has no such part); any text from the
  third comma on is left out. Trimming removes whitespace only, and leaves a text that
  neither starts nor ends with whitespace.
\<close>

theorem demographics_columns_parts:
  assumes "demographics_columns col = Inr (g, a, r)" and "i < length col" and "col ! i = Text s"
  shows "length (split_on comma s) = Suc (count_list s comma) \<and>
         join_with comma (split_on comma s) = s \<and>
         (\<forall>p \<in> set (split_on comma s). comma \<notin> set p) \<and>
         g ! i = Text (strip (split_on comma s ! 0)) \<and>
         a ! i = (if 1 < length (split_on comma s) then Text (strip (split_on comma s ! 1)) else NA) \<and>
         r ! i = (if 2 < length (split_on comma s) then Text (strip (split_on comma s ! 2)) else NA) \<and>
         (\<forall>p. strip p = [] \<or> \<not> is_space (hd (strip p)) \<and> \<not> is_space (last (strip p))) \<and>
         (\<forall>p. \<exists>l t. p = l @ strip p @ t \<and> list_all is_space l \<and> list_all is_space t)"
proof -
  have parts: "split_on comma s \<noteq> []" by (rule split_on_not_Nil)
  from demographics_columns_Inr [OF assms(1)] assms(2,3)
  have "g ! i = strip_cell (expand_cell 0 (split_row (Text s)))"
    and "a ! i = strip_cell (expand_cell 1 (split_row (Text s)))"
    and "r ! i = strip_cell (expand_cell 2 (split_row (Text s)))"
    by simp_all
  then have "g ! i = Text (strip (split_on comma s ! 0))"
    and "a ! i = (if 1 < length (split_on comma s) then Text (strip (split_on comma s ! 1)) else NA)"
    and "r ! i = (if 2 < length (split_on comma s) then Text (strip (split_on comma s ! 2)) else NA)"
    using parts by (simp_all add: strip_cell_def expand_cell_def split_row_def)
  moreover have "\<forall>p. strip p = [] \<or> \<not> is_space (hd (strip p)) \<and> \<not> is_space (last (strip p))"
    using strip_trimmed by blast
  moreover have "\<forall>p \<in> set (split_on comma s). comma \<notin> set p"
    using split_on_parts_free by blast
  moreover have "\<forall>p. \<exists>l t. p = l @ strip p @ t \<and> list_all is_space l \<and> list_all is_space t"
    using strip_decomposition by blast
  ultimately show ?thesis
    by (simp add: length_split_on join_split_on)
qed

theorem demographics_columns_parts_witness:
  "demographics_columns [Text (ascii ''M, 30, North, East'')] =
     Inr ([Text (ascii ''M'')], [Text (ascii ''30'')], [Text (ascii ''North'')]) \<and>
   split_on comma (ascii ''M, 30, North, East'') =
     [ascii ''M'', ascii '' 30'', ascii '' North'', ascii '' East''] \<and>
   [Text (ascii ''North'')] ! 0 = Text (strip (split_on comma (ascii ''M, 30, North, East'') ! 2))"
proof -
  have cols: "demographics_columns [Text (ascii ''M, 30, North, East'')] =
      Inr ([Text (ascii ''M'')], [Text (ascii ''30'')], [Text (ascii ''North'')])"
    by (simp add: demographics_columns_def frame_ops text_ops upt_rec)
  have parts: "split_on comma (ascii ''M, 30, North, East'') =
      [ascii ''M'', ascii '' 30'', ascii '' North'', ascii '' East'']"
    by (simp add: text_ops)
  from demographics_columns_parts [OF cols, of 0 "ascii ''M, 30, North, East''"] parts cols
  show ?thesis by simp
qed

text \<open>
  C2, as stated: the table holding just the three fields of the scenario row. The
  transformer reads the column \<open>birth_date\<close> right after the split and raises
  \<open>KeyError\<close>, so no canonical record is produced.
\<close>

theorem transform_scenario_fields_only:
  "\<forall>lib now. transform_data lib now scenario_fields = Inl (KeyError (StrKey birth_date))"
  by (simp add: scenario_fields_def transform_data_def split_demographics_def demographics_columns_def
      frame_ops text_ops column_names to_numeric_coerce_def gender_mapping_def residence_mapping_def upt_rec)

text \<open>
  C2, amended. When the table of the scenario row also has the six other columns the
  transformer reads, with missing values, the result is the canonical record with
  gender \<open>MALE\<close>, age 30, residence \<open>JERUSALEM\<close> and organization \<open>HAMAS\<close>, the name
  unchanged and the six other fields missing.
\<close>

theorem transform_scenario_table:
  "transform_data lib now scenario_table =
     Inr [(full_name, [Text [1488]]),
          (organization, [Text (ascii ''HAMAS'')]),
          (birth_date, [NA]), (arrest_date, [NA]), (israeli_citizenship, [NA]), (status, [NA]),
          (court, [NA]), (deportation_status, [NA]),
          (gender, [Text (ascii ''MALE'')]),
          (age, [Num 30]),
          (residence, [Text (ascii ''JERUSALEM'')])]"
  by (simp add: scenario_table_def scenario_fields_def transform_data_def split_demographics_def demographics_columns_def
      frame_ops text_ops column_names to_numeric_coerce_def gender_mapping_def residence_mapping_def upt_rec
      format_date_def format_date_body_def organization_mapping_def citizenship_mapping_def
      status_mapping_def court_mapping_def deportation_mapping_def)


lemma format_date_agree:
  "(c \<noteq> NA \<longrightarrow> to_datetime lib n1 c = to_datetime lib n2 c) \<Longrightarrow>
   format_date lib n1 c = format_date lib n2 c"
  by (cases c) (simp_all add: format_date_def format_date_body_def)

lemma apply_column_cong:
  "(\<forall>c \<in> set (column_cells df k). f c = g c) \<Longrightarrow> apply_column df k f = apply_column df k g"
proof (cases "map_of df k")
  case None
  then show ?thesis by (simp add: apply_column_def try_bind_def getitem_def)
next
  case (Some col)
  assume "\<forall>c \<in> set (column_cells df k). f c = g c"
  with Some have eq: "map f col = map g col" by (simp add: column_cells_def)
  from Some show ?thesis by (simp add: apply_column_def try_bind_def getitem_def eq)
qed

lemma column_cells_setitem:
  "k' \<noteq> k \<Longrightarrow> column_cells (setitem df k col) k' = column_cells df k'"
  by (simp add: column_cells_def setitem_def update_conv')

lemma column_cells_apply_column:
  "apply_column df k f = Inr df' \<Longrightarrow> k' \<noteq> k \<Longrightarrow> column_cells df' k' = column_cells df k'"
  by (auto simp: apply_column_def try_bind_def getitem_def column_cells_setitem
      split: option.splits)

lemma column_cells_drop_column:
  "drop_column df k = Inr df' \<Longrightarrow> k' \<noteq> k \<Longrightarrow> column_cells df' k' = column_cells df k'"
  by (auto simp: drop_column_def column_cells_def delete_conv' split: option.splits)

lemma column_cells_split_demographics:
  assumes "split_demographics lib df = Inr df'"
    and "k \<noteq> gender" and "k \<noteq> age" and "k \<noteq> residence" and "k \<noteq> demographics"
  shows "column_cells df' k = column_cells df k"
proof -
  from assms(1) obtain col g a r d1 d2 d3 acol where
    c: "demographics_columns col = Inr (g, a, r)"
    and d1: "apply_column (setitem (setitem (setitem df gender g) age a) residence r) gender
              (\<lambda>x. safe_map x gender_mapping) = Inr d1"
    and d2: "apply_column d1 residence (\<lambda>x. safe_map x residence_mapping) = Inr d2"
    and d3: "drop_column d2 demographics = Inr d3"
    and df': "df' = setitem d3 age (to_numeric_coerce lib acol)"
    by (auto simp: split_demographics_def try_bind_def split: sum.splits)
  have "column_cells df' k = column_cells d3 k"
    using df' assms(3) by (simp add: column_cells_setitem)
  also have "\<dots> = column_cells d2 k"
    using d3 assms(5) by (rule column_cells_drop_column)
  also have "\<dots> = column_cells d1 k"
    using d2 assms(4) by (rule column_cells_apply_column)
  also have "\<dots> = column_cells (setitem (setitem (setitem df gender g) age a) residence r) k"
    using d1 assms(2) by (rule column_cells_apply_column)
  also have "\<dots> = column_cells df k"
    using assms(2,3,4) by (simp add: column_cells_setitem)
  finally show ?thesis .
qed

lemma date_columns_distinct:
  "birth_date \<noteq> gender" "birth_date \<noteq> age" "birth_date \<noteq> residence" "birth_date \<noteq> demographics"
  "arrest_date \<noteq> gender" "arrest_date \<noteq> age" "arrest_date \<noteq> residence"
  "arrest_date \<noteq> demographics" "arrest_date \<noteq> birth_date"
  by (simp_all add: column_names ascii_def)

text \<open>
  C8, amended. The transformer consults the time of the run only through the library's
  date parser, and only on the cells of \<open>birth_date\<close> and \<open>arrest_date\<close> that are not
  missing: two runs on the same batch for which the parser answers alike on these cells
  give the same result.
\<close>

theorem transform_data_clock_frame:
  assumes "\<forall>c \<in> set (column_cells df birth_date) \<union> set (column_cells df arrest_date).
             c \<noteq> NA \<longrightarrow> to_datetime lib now1 c = to_datetime lib now2 c"
  shows "transform_data lib now1 df = transform_data lib now2 df"
proof (cases "split_demographics lib df")
  case (Inl e)
  then show ?thesis by (simp add: transform_data_def try_bind_def)
next
  case (Inr df1)
  have b1: "column_cells df1 birth_date = column_cells df birth_date"
    using Inr date_columns_distinct by (intro column_cells_split_demographics)
  have a1: "column_cells df1 arrest_date = column_cells df arrest_date"
    using Inr date_columns_distinct by (intro column_cells_split_demographics)
  have birth: "apply_column df1 birth_date (format_date lib now1) =
      apply_column df1 birth_date (format_date lib now2)"
    using assms b1 by (intro apply_column_cong) (auto intro: format_date_agree)
  show ?thesis
  proof (cases "apply_column df1 birth_date (format_date lib now2)")
    case (Inl e)
    with Inr birth show ?thesis by (simp add: transform_data_def try_bind_def)
  next
    case df2: (Inr df2)
    have "column_cells df2 arrest_date = column_cells df1 arrest_date"
      using df2 date_columns_distinct by (intro column_cells_apply_column)
    with a1 assms have "apply_column df2 arrest_date (format_date lib now1) =
        apply_column df2 arrest_date (format_date lib now2)"
      by (intro apply_column_cong) (auto intro: format_date_agree)
    with Inr birth df2 show ?thesis by (simp add: transform_data_def try_bind_def)
  qed
qed

theorem transform_data_clock_frame_witness:
  "column_cells (dated_table (ascii ''1990-03-07'')) birth_date = [Text (ascii ''1990-03-07'')] \<and>
   column_cells (dated_table (ascii ''1990-03-07'')) arrest_date = [NA] \<and>
   to_datetime sample_pandas \<lparr>year = 2024, month = 1, day = 1\<rparr> (Text (ascii ''1990-03-07'')) =
     to_datetime sample_pandas \<lparr>year = 2024, month = 1, day = 2\<rparr> (Text (ascii ''1990-03-07'')) \<and>
   transform_data sample_pandas \<lparr>year = 2024, month = 1, day = 1\<rparr> (dated_table (ascii ''1990-03-07'')) =
     transform_data sample_pandas \<lparr>year = 2024, month = 1, day = 2\<rparr> (dated_table (ascii ''1990-03-07''))"
proof -
  have b: "column_cells (dated_table (ascii ''1990-03-07'')) birth_date = [Text (ascii ''1990-03-07'')]"
    by (simp add: dated_table_def column_cells_def column_names ascii_def)
  have a: "column_cells (dated_table (ascii ''1990-03-07'')) arrest_date = [NA]"
    by (simp add: dated_table_def column_cells_def column_names ascii_def)
  have p: "to_datetime sample_pandas \<lparr>year = 2024, month = 1, day = 1\<rparr> (Text (ascii ''1990-03-07'')) =
      to_datetime sample_pandas \<lparr>year = 2024, month = 1, day = 2\<rparr> (Text (ascii ''1990-03-07''))"
    by (simp add: sample_pandas_def ascii_def)
  from transform_data_clock_frame [of "dated_table (ascii ''1990-03-07'')" sample_pandas
      "\<lparr>year = 2024, month = 1, day = 1\<rparr>" "\<lparr>year = 2024, month = 1, day = 2\<rparr>"] a b p
  show ?thesis by simp
qed

text \<open>
  C8, as stated: date parsing would not depend on the current time. With a library
  that reads \<open>today\<close> against the clock, \<open>format_date\<close> of the same text gives a
  different date on the next day, and so does the transformer on the same batch.
\<close>

lemmas sample_ops = sample_pandas_def iso_date_def strftime_ymd_def zero_pad_def digit_str.simps

theorem format_date_reads_clock:
  "format_date sample_pandas \<lparr>year = 2024, month = 1, day = 1\<rparr> (Text (ascii ''today'')) =
     Text (ascii ''2024-01-01'') \<and>
   format_date sample_pandas \<lparr>year = 2024, month = 1, day = 2\<rparr> (Text (ascii ''today'')) =
     Text (ascii ''2024-01-02'') \<and>
   transform_data sample_pandas \<lparr>year = 2024, month = 1, day = 1\<rparr> (dated_table (ascii ''today'')) \<noteq>
   transform_data sample_pandas \<lparr>year = 2024, month = 1, day = 2\<rparr> (dated_table (ascii ''today''))"
  by (simp add: dated_table_def transform_data_def split_demographics_def demographics_columns_def
      frame_ops text_ops column_names to_numeric_coerce_def gender_mapping_def residence_mapping_def upt_rec
      format_date_def format_date_body_def organization_mapping_def citizenship_mapping_def
      status_mapping_def court_mapping_def deportation_mapping_def sample_ops)

section \<open>Page harvester and pagination controller\<close>























lemma scrape_loop_stops:
  assumes "fetch skip (w\<lparr>logs := logs w @ [Info_scraping_page page_num]\<rparr>) = (Inr [], w')"
  shows "scrape_loop fetch max_pages w all_prisoners skip page_num = Some (Inr all_prisoners, w')"
  by (subst scrape_loop.simps) (simp add: assms Let_def)


lemmas sample_views = fresh_world_def site_of_pages_def page_of_def timed_out_def block_def
  unreadable_block_def unknown_block_def cancelled_view_def




text \<open>
  C3. With a fetch function that returns three records, then two, then none, and no
  page ceiling, \<open>scrape_all_pages\<close> returns the five records in order after exactly
  three calls, at the offsets 0, 20 and 40 (and has opened and closed one session). The
  same holds with \<open>get_page_data\<close> itself on a site that shows a page of three blocks,
  a page of two and an empty page: the three navigations carry \<open>skip=0\<close>, \<open>skip=20\<close>
  and \<open>skip=40\<close>.
\<close>

theorem three_fetches_five_records:
  "map_option (\<lambda>(outcome, w'). (outcome, requests w', opened w', closed w'))
     (scrape_all_pages_with (fetch_script [[a, b, c], [d, e], []]) None (fresh_world s)) =
   Some (Inr [a, b, c, d, e], [ascii ''0'', ascii ''20'', ascii ''40''], 1, 1) \<and>
   map_option (\<lambda>(outcome, w'). (outcome, requests w', opened w', closed w'))
     (scrape_all_pages (ascii ''u'') None
        (fresh_world (site_of_pages
           [page_of [named_block n1, named_block n2, named_block n3],
            page_of [named_block n4, named_block n5], page_of []]))) =
   Some (Inr [[(full_name, strip n1)], [(full_name, strip n2)], [(full_name, strip n3)],
              [(full_name, strip n4)], [(full_name, strip n5)]],
         [ascii ''u?skip=0'', ascii ''u?skip=20'', ascii ''u?skip=40''], 1, 1)"
proof -
  have scripted: "map_option (\<lambda>(outcome, w'). (outcome, requests w', opened w', closed w'))
      (scrape_all_pages_with (fetch_script [[a, b, c], [d, e], []]) None (fresh_world s)) =
    Some (Inr [a, b, c, d, e], [ascii ''0'', ascii ''20'', ascii ''40''], 1, 1)"
    by (simp add: scrape_all_pages_with_def fresh_world_def scrape_loop.simps fetch_script_def
        Let_def ceiling_reached_def str_int_def digit_str.simps ascii_def)
  have harvested: "map_option (\<lambda>(outcome, w'). (outcome, requests w', opened w', closed w'))
      (scrape_all_pages (ascii ''u'') None
         (fresh_world (site_of_pages
            [page_of [named_block n1, named_block n2, named_block n3],
             page_of [named_block n4, named_block n5], page_of []]))) =
    Some (Inr [[(full_name, strip n1)], [(full_name, strip n2)], [(full_name, strip n3)],
               [(full_name, strip n4)], [(full_name, strip n5)]],
          [ascii ''u?skip=0'', ascii ''u?skip=20'', ascii ''u?skip=40''], 1, 1)"
    by (simp add: scrape_all_pages_def scrape_all_pages_with_def sample_views named_block_def
        scrape_loop.simps get_page_data_def harvest_def extract_row_def try_bind_def page_url_def
        Let_def ceiling_reached_def str_int_def digit_str.simps ascii_def field_mapping_def
        strip_def is_space_def full_name_def)
  from scripted harvested show ?thesis by (rule conjI)
qed

section \<open>Stages and entry point\<close>

lemma scrap_data_existing:
  assumes "path_exists w raw_csv"
  shows "scrap_data w = Some (None, w\<lparr>logs := logs w @ [Info_skipping]\<rparr>)"
proof -
  from assms obtain d where "output_dir w = Some d"
    by (auto simp: path_exists_def lookup_output_def split: option.splits)
  with assms show ?thesis by (simp add: scrap_data_def)
qed

text \<open>
  C9. If \<open>output/prisoners_data.csv\<close> exists when \<open>scrap_data\<close> starts, the function
  returns at once and without an exception: it only writes one log entry, so no browser
  session is opened or closed, no page is navigated to and no file is written.
\<close>

theorem scrap_data_skips:
  assumes "path_exists w raw_csv"
  shows "scrap_data w = Some (None, w\<lparr>logs := logs w @ [Info_skipping]\<rparr>) \<and>
         (\<forall>w'. scrap_data w = Some (None, w') \<longrightarrow>
            opened w' = opened w \<and> closed w' = closed w \<and> requests w' = requests w \<and>
            output_dir w' = output_dir w)"
  using scrap_data_existing [OF assms] by simp

lemmas file_names = raw_csv_def transformed_csv_def stats_md_def output_path_def

theorem scrap_data_skips_witness:
  "path_exists harvested_world raw_csv \<and>
   map_option (\<lambda>(raised, w'). (raised, opened w', requests w', logs w')) (scrap_data harvested_world) =
     Some (None, 0, [], [Info_skipping])"
proof -
  have h: "path_exists harvested_world raw_csv"
    by (simp add: harvested_world_def path_exists_def lookup_output_def)
  from scrap_data_skips [OF h] h show ?thesis
    by (simp add: harvested_world_def fresh_world_def)
qed

lemma transform_data_module_not_found:
  assumes "read_csv lib w raw_csv = Inl FileNotFoundError"
  shows "transform_data_module lib now w =
     w\<lparr>logs := logs w @ [Error_input_not_found (output_path raw_csv)]\<rparr>"
  using assms by (simp add: transform_data_module_def try_bind_def transform_handler_def)

text \<open>
  C7, amended. When the raw file exists, \<open>main\<close> skips the extraction and runs the
  transform stage, with exit status 0. In every run that ends, either the extraction
  returned, the transform stage ran after it and the exit status is 0, or the
  extraction raised, the transform stage did not run and the exit status is 1. The
  transform stage itself never raises: when it does not find its input file it writes
  one error entry to the log and nothing else, so the exit status does not tell.
\<close>

theorem main_exit_status:
  "(path_exists w raw_csv \<longrightarrow>
      main lib now w =
        Some (0, transform_data_module lib now (w\<lparr>logs := logs w @ [Info_skipping]\<rparr>))) \<and>
   (\<forall>st w'. main lib now w = Some (st, w') \<longrightarrow>
      (st = 0 \<and> (\<exists>w1. scrap_data w = Some (None, w1) \<and> w' = transform_data_module lib now w1)) \<or>
      (st = 1 \<and> (\<exists>e. scrap_data w = Some (Some e, w')))) \<and>
   (read_csv lib w raw_csv = Inl FileNotFoundError \<longrightarrow>
      transform_data_module lib now w =
        w\<lparr>logs := logs w @ [Error_input_not_found (output_path raw_csv)]\<rparr>)"
proof (intro conjI impI allI)
  assume "path_exists w raw_csv"
  then have "scrap_data w = Some (None, w\<lparr>logs := logs w @ [Info_skipping]\<rparr>)"
    by (rule scrap_data_existing)
  then show "main lib now w =
      Some (0, transform_data_module lib now (w\<lparr>logs := logs w @ [Info_skipping]\<rparr>))"
    by (simp add: main_def)
next
  fix st w'
  assume "main lib now w = Some (st, w')"
  then show "(st = 0 \<and> (\<exists>w1. scrap_data w = Some (None, w1) \<and> w' = transform_data_module lib now w1)) \<or>
      (st = 1 \<and> (\<exists>e. scrap_data w = Some (Some e, w')))"
    by (auto simp: main_def split: option.splits prod.splits)
next
  assume "read_csv lib w raw_csv = Inl FileNotFoundError"
  then show "transform_data_module lib now w =
      w\<lparr>logs := logs w @ [Error_input_not_found (output_path raw_csv)]\<rparr>"
    by (rule transform_data_module_not_found)
qed


lemmas stage_ops = main_def scrap_data_def makedirs_output_def path_exists_def lookup_output_def
  scrape_all_pages_def scrape_all_pages_with_def transform_data_module_def transform_handler_def
  read_csv_def to_csv_def write_output_def try_bind_def

theorem main_exit_status_witness:
  "path_exists harvested_world raw_csv \<and>
   map_option fst (main sample_pandas new_year harvested_world) = Some 0 \<and>
   main sample_pandas new_year no_browser_world =
     Some (1, no_browser_world\<lparr>output_dir := Some Map.empty\<rparr>) \<and>
   scrap_data no_browser_world =
     Some (Some (Exception (RenderError (ascii ''Executable does not exist''))),
           no_browser_world\<lparr>output_dir := Some Map.empty\<rparr>) \<and>
   read_csv sample_pandas (fresh_world (site_of_pages [])) raw_csv = Inl FileNotFoundError \<and>
   logs (transform_data_module sample_pandas new_year (fresh_world (site_of_pages []))) =
     [Error_input_not_found (output_path raw_csv)]"
proof -
  have a: "path_exists harvested_world raw_csv"
    by (simp add: harvested_world_def path_exists_def lookup_output_def)
  have b: "main sample_pandas new_year no_browser_world =
      Some (1, no_browser_world\<lparr>output_dir := Some Map.empty\<rparr>)"
    by (simp add: stage_ops no_browser_world_def fresh_world_def Let_def)
  have c: "read_csv sample_pandas (fresh_world (site_of_pages [])) raw_csv = Inl FileNotFoundError"
    by (simp add: read_csv_def lookup_output_def fresh_world_def)
  from main_exit_status [of harvested_world sample_pandas new_year] a
  have "map_option fst (main sample_pandas new_year harvested_world) = Some 0"
    by simp
  moreover from main_exit_status [of no_browser_world sample_pandas new_year] b
  have "scrap_data no_browser_world =
      Some (Some (Exception (RenderError (ascii ''Executable does not exist''))),
            no_browser_world\<lparr>output_dir := Some Map.empty\<rparr>)"
    by (auto simp: stage_ops no_browser_world_def fresh_world_def Let_def)
  moreover from main_exit_status [of "fresh_world (site_of_pages [])" sample_pandas new_year] c
  have "logs (transform_data_module sample_pandas new_year (fresh_world (site_of_pages []))) =
      [Error_input_not_found (output_path raw_csv)]"
    by (simp add: fresh_world_def)
  ultimately show ?thesis using a b c by simp
qed

text \<open>
  C7, as stated: the exit status would be a failure when the transform stage has no
  input file, and the transform stage would always run. Where the entry
  \<open>prisoners_data.csv\<close> is a directory, the extraction is skipped, the transform stage
  cannot read its input and writes nothing, and the exit status is 0. Where the browser
  cannot be launched, the extraction raises, the exit status is 1 and the transform
  stage does not run.
\<close>

theorem exit_status_ignores_transform_input:
  "read_csv sample_pandas directory_world raw_csv = Inl IsADirectoryError \<and>
   map_option (\<lambda>(st, w'). (st, lookup_output w' transformed_csv, logs w'))
     (main sample_pandas new_year directory_world) =
     Some (0, None, [Info_skipping, Error_occurred IsADirectoryError]) \<and>
   map_option (\<lambda>(st, w'). (st, logs w')) (main sample_pandas new_year no_browser_world) =
     Some (1, [])"
  by (simp add: stage_ops directory_world_def no_browser_world_def fresh_world_def Let_def
      file_names ascii_def)

end
